theory Spec2Isabelle
  imports Main "HOL-Library.AList" "HOL-Library.Char_ord" "HOL-Library.List_Lexorder"
begin

section \<open>Python strings\<close>

text \<open>
  A Python \<open>str\<close> is modelled as a \<open>string\<close>; a character stands for the code point of the
  same number (0 to 255).  \<open>str.isspace\<close> is true of exactly twelve of them.
\<close>

definition isspace :: "char \<Rightarrow> bool" where
  "isspace c = ((of_char c :: nat) \<in> {9, 10, 11, 12, 13, 28, 29, 30, 31, 32, 133, 160})"

definition strip :: "string \<Rightarrow> string" where
  "strip s = rev (dropWhile isspace (rev (dropWhile isspace s)))"

fun split_comma :: "string \<Rightarrow> string list" where
  "split_comma [] = [[]]"
| "split_comma (c # cs) =
     (if c = CHR '','' then [] # split_comma cs
      else (case split_comma cs of [] \<Rightarrow> [[c]] | w # ws \<Rightarrow> (c # w) # ws))"

text \<open>\<open>{tag.strip() for tag in s.split(',') if tag.strip()}\<close>\<close>

definition parse_tags :: "string \<Rightarrow> string set" where
  "parse_tags s = set (filter (\<lambda>t. t \<noteq> []) (map strip (split_comma s)))"

text \<open>\<open>k in s\<close> on two strings: \<open>k\<close> occurs in \<open>s\<close> as a contiguous run.\<close>

fun is_substr :: "string \<Rightarrow> string \<Rightarrow> bool" where
  "is_substr k [] = (k = [])"
| "is_substr k (c # cs) = (take (length k) (c # cs) = k \<or> is_substr k cs)"

section \<open>JSON values and the Python operations used on them\<close>

text \<open>
  What \<open>json.loads\<close> returns: \<open>None\<close>, a bool, an int, a str, a list or a dict.  A dict
  keeps its keys in insertion order, so it is an association list (with distinct keys).
  Numbers with a fraction or an exponent are not part of the model.
\<close>

datatype json =
    JNull
  | JBool bool
  | JInt int
  | JStr string
  | JList "json list"
  | JObj "(string \<times> json) list"

datatype pyerr =
    KeyError
  | FileNotFoundError
  | FileExistsError
  | NotADirectoryError
  | IsADirectoryError
  | PermissionError
  | NoSpaceError
  | TypeError
  | AttributeError
  | ValueError
  | OverflowError

text \<open>\<open>IOError\<close> is \<open>OSError\<close>; these are its subclasses and instances above.\<close>

definition is_OSError :: "pyerr \<Rightarrow> bool" where
  "is_OSError e = (e \<in> {FileNotFoundError, FileExistsError, NotADirectoryError,
                          IsADirectoryError, PermissionError, NoSpaceError})"

text \<open>\<open>a == b\<close>: \<open>True == 1\<close> and \<open>False == 0\<close>; dicts are equal whatever their key order.\<close>

fun py_eq :: "json \<Rightarrow> json \<Rightarrow> bool" where
  "py_eq JNull b = (b = JNull)"
| "py_eq (JBool x) b =
     (case b of JBool y \<Rightarrow> x = y | JInt n \<Rightarrow> n = (if x then 1 else 0) | _ \<Rightarrow> False)"
| "py_eq (JInt m) b =
     (case b of JInt n \<Rightarrow> m = n | JBool y \<Rightarrow> m = (if y then 1 else 0) | _ \<Rightarrow> False)"
| "py_eq (JStr s) b = (b = JStr s)"
| "py_eq (JList xs) b = (case b of JList ys \<Rightarrow> list_all2 py_eq xs ys | _ \<Rightarrow> False)"
| "py_eq (JObj kx) b =
     (case b of
        JObj ky \<Rightarrow> length kx = length ky \<and>
          list_all (\<lambda>(k, v). case map_of ky k of None \<Rightarrow> False | Some u \<Rightarrow> py_eq v u) kx
      | _ \<Rightarrow> False)"

text \<open>\<open>a in b\<close>\<close>

fun py_in :: "json \<Rightarrow> json \<Rightarrow> pyerr + bool" where
  "py_in a (JList xs) = Inr (list_ex (py_eq a) xs)"
| "py_in a (JStr s) = (case a of JStr k \<Rightarrow> Inr (is_substr k s) | _ \<Rightarrow> Inl TypeError)"
| "py_in a (JObj kvs) =
     (case a of
        JStr k \<Rightarrow> Inr (k \<in> set (map fst kvs))
      | JList _ \<Rightarrow> Inl TypeError
      | JObj _ \<Rightarrow> Inl TypeError
      | _ \<Rightarrow> Inr False)"
| "py_in a _ = Inl TypeError"

text \<open>\<open>d[k]\<close> with a string \<open>k\<close>\<close>

fun py_getitem :: "json \<Rightarrow> string \<Rightarrow> pyerr + json" where
  "py_getitem (JObj kvs) k = (case map_of kvs k of None \<Rightarrow> Inl KeyError | Some v \<Rightarrow> Inr v)"
| "py_getitem _ k = Inl TypeError"

text \<open>\<open>d.get(k, default)\<close>\<close>

fun py_get :: "json \<Rightarrow> string \<Rightarrow> json \<Rightarrow> pyerr + json" where
  "py_get (JObj kvs) k d = (case map_of kvs k of None \<Rightarrow> Inr d | Some v \<Rightarrow> Inr v)"
| "py_get _ k d = Inl AttributeError"

text \<open>\<open>s.lower()\<close> where \<open>s\<close> should be a string.\<close>

definition lower_char :: "char \<Rightarrow> char" where
  "lower_char c =
     (let n = (of_char c :: nat)
      in if (65 \<le> n \<and> n \<le> 90) \<or> (192 \<le> n \<and> n \<le> 222 \<and> n \<noteq> 215) then char_of (n + 32) else c)"

definition lower :: "string \<Rightarrow> string" where
  "lower s = map lower_char s"

fun py_lower :: "json \<Rightarrow> pyerr + string" where
  "py_lower (JStr s) = Inr (lower s)"
| "py_lower _ = Inl AttributeError"

text \<open>\<open>', '.join(x)\<close>: the strings joined, when \<open>x\<close> yields strings only.\<close>

fun py_join :: "json \<Rightarrow> pyerr + string list" where
  "py_join (JList xs) =
     (if list_all (\<lambda>x. case x of JStr _ \<Rightarrow> True | _ \<Rightarrow> False) xs
      then Inr (map (\<lambda>x. case x of JStr s \<Rightarrow> s | _ \<Rightarrow> []) xs) else Inl TypeError)"
| "py_join (JStr s) = Inr (map (\<lambda>c. [c]) s)"
| "py_join (JObj kvs) = Inr (map fst kvs)"
| "py_join _ = Inl TypeError"

section \<open>The file system\<close>

text \<open>
  A directory lists its entries in the order \<open>os.scandir\<close> yields them.  A regular file has
  its text, its modification time (the naive local \<open>datetime.fromtimestamp(st_mtime)\<close>, in
  microseconds) and whether the process may read and write it; a directory may be locked
  (no entry can be created in it or removed from it).  There are no symbolic links and no
  special files.  The volume has \<open>free\<close> characters left.
\<close>

datatype node =
    File string int bool bool
  | Dir bool "(string \<times> node) list"

text \<open>
  A path is absolute or relative to the working directory, and is a list of names
  (no \<open>.\<close> or \<open>..\<close>): \<open>Path True []\<close> is \<open>/\<close>, and \<open>Path False []\<close> is the empty path
  \<open>''\<close>, which \<open>os.path.dirname\<close> returns for a bare file name and which names nothing.
\<close>

datatype path = Path bool "string list"

fun join :: "path \<Rightarrow> string \<Rightarrow> path" where
  "join (Path a ps) name = Path a (ps @ [name])"

fun dirname :: "path \<Rightarrow> path" where
  "dirname (Path a ps) = Path a (butlast ps)"

fun basename :: "path \<Rightarrow> string" where
  "basename (Path a ps) = (if ps = [] then [] else last ps)"

fun lookup :: "node \<Rightarrow> string list \<Rightarrow> node option" where
  "lookup n [] = Some n"
| "lookup (File c m r wr) (x # xs) = None"
| "lookup (Dir l es) (x # xs) = (case map_of es x of None \<Rightarrow> None | Some c \<Rightarrow> lookup c xs)"

text \<open>Replace the node at a path, or add it to its parent when the parent exists.\<close>

fun put :: "string list \<Rightarrow> node \<Rightarrow> node \<Rightarrow> node" where
  "put [] new t = new"
| "put (x # xs) new (File c m r wr) = File c m r wr"
| "put (x # xs) new (Dir l es) =
     (case map_of es x of
        None \<Rightarrow> if xs = [] then Dir l (es @ [(x, new)]) else Dir l es
      | Some c \<Rightarrow> Dir l (AList.update x (put xs new c) es))"

fun del :: "string list \<Rightarrow> node \<Rightarrow> node" where
  "del [] t = t"
| "del (x # xs) (File c m r wr) = File c m r wr"
| "del (x # xs) (Dir l es) =
     (case map_of es x of
        None \<Rightarrow> Dir l es
      | Some c \<Rightarrow> if xs = [] then Dir l (AList.delete x es)
                  else Dir l (AList.update x (del xs c) es))"

text \<open>\<open>os.makedirs(p, exist_ok=True)\<close> below a node.\<close>

fun mkdirs :: "string list \<Rightarrow> node \<Rightarrow> pyerr + node" where
  "mkdirs [] (Dir l es) = Inr (Dir l es)"
| "mkdirs [] (File c m r wr) = Inl FileExistsError"
| "mkdirs (x # xs) (File c m r wr) = Inl NotADirectoryError"
| "mkdirs (x # xs) (Dir l es) =
     (case map_of es x of
        Some c \<Rightarrow>
          (case mkdirs xs c of Inl e \<Rightarrow> Inl e
           | Inr c' \<Rightarrow> Inr (Dir l (AList.update x c' es)))
      | None \<Rightarrow>
          if l then Inl PermissionError
          else (case mkdirs xs (Dir False []) of Inl e \<Rightarrow> Inl e
                | Inr c' \<Rightarrow> Inr (Dir l (es @ [(x, c')]))))"

text \<open>\<open>os.walk\<close> (top-down): one triple \<open>(root, dirs, files)\<close> per directory.\<close>

fun is_Dir :: "node \<Rightarrow> bool" where
  "is_Dir (Dir l es) = True"
| "is_Dir (File c m r wr) = False"

fun walk_node :: "path \<Rightarrow> node \<Rightarrow> (path \<times> string list \<times> string list) list" where
  "walk_node p (File c m r wr) = []"
| "walk_node p (Dir l es) =
     (p, map fst (filter (\<lambda>e. is_Dir (snd e)) es), map fst (filter (\<lambda>e. \<not> is_Dir (snd e)) es))
     # concat (map (\<lambda>e. walk_node (join p (fst e)) (snd e)) es)"

section \<open>The process and its environment\<close>

text \<open>
  The libraries the program calls are parameters: \<open>json.loads\<close> (\<open>None\<close> when it raises
  \<open>JSONDecodeError\<close>), \<open>json.dump\<close> with \<open>indent=4\<close>, \<open>hashlib.sha256\<close> with \<open>hexdigest\<close>,
  and the clock: reading number \<open>i\<close> of \<open>datetime.now()\<close> returns \<open>clock i\<close> microseconds.
\<close>

record env =
  json_loads :: "string \<Rightarrow> json option"
  json_dumps :: "json \<Rightarrow> string"
  sha256 :: "string \<Rightarrow> string"
  clock :: "nat \<Rightarrow> int"

text \<open>What the program prints, one constructor per \<open>print\<close> of the source.\<close>

datatype msg =
    InfoEmptyMetadata path
  | WarnCorruptMetadata path
  | ErrReadingMetadata path pyerr
  | UnexpectedLoadError path pyerr
  | ErrSavePermission path
  | ErrSavingMetadata path pyerr
  | UnexpectedSaveError path pyerr
  | ErrHashing path pyerr
  | ErrAccessingFile path pyerr
  | ErrFolderNotFound path
  | ErrPathNotFound path
  | ErrNeitherFileNorDir path
  | DedupSearching path bool
  | DuplicateFound path path
  | DedupDeleted path
  | ErrDeletingDuplicate path pyerr
  | DedupFinished nat bool nat
  | TagsUpdated path "string list"
  | NoTagChanges path "string set"
  | TagFinished nat
  | SearchTagStart string path
  | TagFound path "string list"
  | SearchTagFinished nat string
  | ErrInvalidQuery
  | SearchMetaStart path json
  | MetaFound path nat int string "string list"
  | ErrProcessingQuery path
  | SearchMetaFinished nat

text \<open>Calls of the two sidecar functions, recorded to count them.\<close>

datatype call = Load path | Save path

record world =
  root :: node
  cwd :: "string list"
  free :: nat
  ticks :: nat
  out :: "msg list"
  calls :: "call list"

definition say :: "msg \<Rightarrow> world \<Rightarrow> world" where
  "say m w = w\<lparr>out := out w @ [m]\<rparr>"

definition log_call :: "call \<Rightarrow> world \<Rightarrow> world" where
  "log_call c w = w\<lparr>calls := calls w @ [c]\<rparr>"

definition resolve :: "world \<Rightarrow> path \<Rightarrow> string list option" where
  "resolve w p =
     (case p of Path a ps \<Rightarrow>
        if a then Some ps else if ps = [] then None else Some (cwd w @ ps))"

definition node_at :: "world \<Rightarrow> path \<Rightarrow> node option" where
  "node_at w p = (case resolve w p of None \<Rightarrow> None | Some ps \<Rightarrow> lookup (root w) ps)"

definition exists :: "world \<Rightarrow> path \<Rightarrow> bool" where
  "exists w p = (node_at w p \<noteq> None)"

definition isfile :: "world \<Rightarrow> path \<Rightarrow> bool" where
  "isfile w p = (case node_at w p of Some (File c m r wr) \<Rightarrow> True | _ \<Rightarrow> False)"

definition isdir :: "world \<Rightarrow> path \<Rightarrow> bool" where
  "isdir w p = (case node_at w p of Some (Dir l es) \<Rightarrow> True | _ \<Rightarrow> False)"

text \<open>\<open>open(p).read()\<close>, in text or binary mode.\<close>

definition read_file :: "world \<Rightarrow> path \<Rightarrow> pyerr + string" where
  "read_file w p =
     (case node_at w p of
        None \<Rightarrow> Inl FileNotFoundError
      | Some (Dir l es) \<Rightarrow> Inl IsADirectoryError
      | Some (File c m r wr) \<Rightarrow> if r then Inr c else Inl PermissionError)"

text \<open>\<open>os.stat(p)\<close>: size and modification time.\<close>

definition os_stat :: "world \<Rightarrow> path \<Rightarrow> pyerr + nat \<times> int" where
  "os_stat w p =
     (case node_at w p of
        None \<Rightarrow> Inl FileNotFoundError
      | Some (Dir l es) \<Rightarrow> Inr (0, 0)
      | Some (File c m r wr) \<Rightarrow> Inr (length c, m))"

text \<open>\<open>open(p, 'w')\<close>: an existing file is emptied at once, a missing one is created.\<close>

definition open_w :: "env \<Rightarrow> path \<Rightarrow> world \<Rightarrow> pyerr + world" where
  "open_w E p w =
     (case resolve w p of
        None \<Rightarrow> Inl FileNotFoundError
      | Some ps \<Rightarrow>
          (case lookup (root w) ps of
             Some (Dir l es) \<Rightarrow> Inl IsADirectoryError
           | Some (File c m r wr) \<Rightarrow>
               if wr
               then Inr (w\<lparr>root := put ps (File [] (clock E (ticks w)) r wr) (root w),
                          free := free w + length c\<rparr>)
               else Inl PermissionError
           | None \<Rightarrow>
               (case lookup (root w) (butlast ps) of
                  None \<Rightarrow> Inl FileNotFoundError
                | Some (File c m r wr) \<Rightarrow> Inl NotADirectoryError
                | Some (Dir l es) \<Rightarrow>
                    if l then Inl PermissionError
                    else Inr (w\<lparr>root := put ps (File [] (clock E (ticks w)) True True) (root w)\<rparr>))))"

text \<open>
  Writing \<open>s\<close> to the file just opened and closing it: when the volume is too small, the
  part that fits is written and \<open>OSError\<close> (no space left) is raised.
\<close>

definition write_all :: "path \<Rightarrow> string \<Rightarrow> world \<Rightarrow> pyerr option \<times> world" where
  "write_all p s w =
     (case resolve w p of
        None \<Rightarrow> (Some FileNotFoundError, w)
      | Some ps \<Rightarrow>
          (case lookup (root w) ps of
             Some (File c m r wr) \<Rightarrow>
               if length s \<le> free w
               then (None, w\<lparr>root := put ps (File (c @ s) m r wr) (root w),
                             free := free w - length s\<rparr>)
               else (Some NoSpaceError,
                     w\<lparr>root := put ps (File (c @ take (free w) s) m r wr) (root w), free := 0\<rparr>)
           | _ \<Rightarrow> (Some FileNotFoundError, w)))"

definition os_makedirs :: "path \<Rightarrow> world \<Rightarrow> pyerr + world" where
  "os_makedirs p w =
     (case resolve w p of
        None \<Rightarrow> Inl FileNotFoundError
      | Some ps \<Rightarrow>
          (case mkdirs ps (root w) of Inl e \<Rightarrow> Inl e | Inr t \<Rightarrow> Inr (w\<lparr>root := t\<rparr>)))"

definition os_remove :: "path \<Rightarrow> world \<Rightarrow> pyerr + world" where
  "os_remove p w =
     (case resolve w p of
        None \<Rightarrow> Inl FileNotFoundError
      | Some ps \<Rightarrow>
          (case lookup (root w) ps of
             None \<Rightarrow> Inl FileNotFoundError
           | Some (Dir l es) \<Rightarrow> Inl IsADirectoryError
           | Some (File c m r wr) \<Rightarrow>
               (case lookup (root w) (butlast ps) of
                  Some (Dir l es) \<Rightarrow>
                    if l then Inl PermissionError
                    else Inr (w\<lparr>root := del ps (root w), free := free w + length c\<rparr>)
                | _ \<Rightarrow> Inl FileNotFoundError)))"

definition os_walk :: "world \<Rightarrow> path \<Rightarrow> (path \<times> string list \<times> string list) list" where
  "os_walk w folder = (case node_at w folder of Some (Dir l es) \<Rightarrow> walk_node folder (Dir l es) | _ \<Rightarrow> [])"

definition os_listdir :: "world \<Rightarrow> path \<Rightarrow> string list" where
  "os_listdir w p = (case node_at w p of Some (Dir l es) \<Rightarrow> map fst es | _ \<Rightarrow> [])"

section \<open>The sidecar store\<close>

definition METADATA_FILE :: string where
  "METADATA_FILE = ''.superhxpro_metadata.json''"

definition load_metadata :: "env \<Rightarrow> path \<Rightarrow> world \<Rightarrow> json \<times> world" where
  "load_metadata E folder_path w0 =
     (let metadata_path = join folder_path METADATA_FILE;
          w = log_call (Load folder_path) w0
      in if exists w metadata_path then
           (case read_file w metadata_path of
              Inr text \<Rightarrow>
                (let content = strip text
                 in if content \<noteq> [] then
                      (case json_loads E content of
                         Some doc \<Rightarrow> (doc, w)
                       | None \<Rightarrow> (JObj [], say (WarnCorruptMetadata metadata_path) w))
                    else (JObj [], say (InfoEmptyMetadata metadata_path) w))
            | Inl e \<Rightarrow>
                if is_OSError e then (JObj [], say (ErrReadingMetadata metadata_path e) w)
                else (JObj [], say (UnexpectedLoadError metadata_path e) w))
         else (JObj [], w))"

definition save_error :: "path \<Rightarrow> pyerr \<Rightarrow> msg" where
  "save_error metadata_path e =
     (if e = PermissionError then ErrSavePermission metadata_path
      else if is_OSError e then ErrSavingMetadata metadata_path e
      else UnexpectedSaveError metadata_path e)"

definition save_metadata :: "env \<Rightarrow> path \<Rightarrow> json \<Rightarrow> world \<Rightarrow> world" where
  "save_metadata E folder_path metadata w0 =
     (let metadata_path = join folder_path METADATA_FILE;
          w = log_call (Save folder_path) w0
      in case os_makedirs folder_path w of
           Inl e \<Rightarrow> say (save_error metadata_path e) w
         | Inr w1 \<Rightarrow>
             (case open_w E metadata_path w1 of
                Inl e \<Rightarrow> say (save_error metadata_path e) w1
              | Inr w2 \<Rightarrow>
                  (case write_all metadata_path (json_dumps E metadata) w2 of
                     (Some e, w3) \<Rightarrow> say (save_error metadata_path e) w3
                   | (None, w3) \<Rightarrow> w3)))"

section \<open>Content deduplication\<close>

definition get_file_hash :: "env \<Rightarrow> path \<Rightarrow> world \<Rightarrow> string option \<times> world" where
  "get_file_hash E filepath w =
     (case read_file w filepath of
        Inr bytes \<Rightarrow> (Some (sha256 E bytes), w)
      | Inl e \<Rightarrow> (None, say (ErrHashing filepath e) w))"

record dedup_state =
  hashes :: "string \<rightharpoonup> path"
  duplicates_found :: nat
  deleted_count :: nat

text \<open>The body of the inner loop of \<open>deduplicate\<close>, for one \<open>filepath\<close>.\<close>

definition dedup_file :: "env \<Rightarrow> bool \<Rightarrow> path \<Rightarrow> dedup_state \<times> world \<Rightarrow> dedup_state \<times> world" where
  "dedup_file E dry_run filepath sw =
     (case sw of (st, w) \<Rightarrow>
        if \<not> isfile w filepath then (st, w)
        else
          (case get_file_hash E filepath w of
             (None, w1) \<Rightarrow> (st, w1)
           | (Some file_hash, w1) \<Rightarrow>
               if file_hash = [] then (st, w1)
               else
                 (case hashes st file_hash of
                    Some original \<Rightarrow>
                      (let st1 = st\<lparr>duplicates_found := duplicates_found st + 1\<rparr>;
                           w2 = say (DuplicateFound filepath original) w1
                       in if \<not> dry_run then
                            (case os_remove filepath w2 of
                               Inr w3 \<Rightarrow>
                                 (st1\<lparr>deleted_count := deleted_count st1 + 1\<rparr>,
                                  say (DedupDeleted filepath) w3)
                             | Inl e \<Rightarrow> (st1, say (ErrDeletingDuplicate filepath e) w2))
                          else (st1, w2))
                  | None \<Rightarrow> (st\<lparr>hashes := (hashes st)(file_hash \<mapsto> filepath)\<rparr>, w1))))"

primrec dedup_files :: "env \<Rightarrow> bool \<Rightarrow> path list \<Rightarrow> dedup_state \<times> world \<Rightarrow> dedup_state \<times> world" where
  "dedup_files E dry_run [] sw = sw"
| "dedup_files E dry_run (filepath # rest) sw =
     dedup_files E dry_run rest (dedup_file E dry_run filepath sw)"

text \<open>
  The paths \<open>os.path.join(root, filename)\<close> of a walk, in its order.  The walk lists a
  directory when it reaches it; since the programs below change no listing that is still
  to be read (they remove or write a file only in a directory already listed), the walk
  is taken on the file system as it is at the start.
\<close>

definition walk_files :: "world \<Rightarrow> path \<Rightarrow> path list" where
  "walk_files w folder =
     concat (map (\<lambda>(dir, dirs, files). map (join dir) files) (os_walk w folder))"

definition deduplicate :: "env \<Rightarrow> path \<Rightarrow> bool \<Rightarrow> world \<Rightarrow> world" where
  "deduplicate E folder dry_run w =
     (if \<not> isdir w folder then say (ErrFolderNotFound folder) w
      else
        (let w1 = say (DedupSearching folder dry_run) w;
             init = \<lparr>hashes = Map.empty, duplicates_found = 0, deleted_count = 0\<rparr>
         in case dedup_files E dry_run (walk_files w1 folder) (init, w1) of
              (st, w2) \<Rightarrow>
                say (DedupFinished (duplicates_found st) dry_run (deleted_count st)) w2))"

section \<open>Tagging\<close>

text \<open>
  \<open>set(x)\<close> for the stored tags \<open>x\<close>: the strings in it as a set, and the other members
  (numbers, booleans, \<open>None\<close>) in the order of their first occurrence.  Lists and dicts
  cannot be members of a set.
\<close>

fun hashable :: "json \<Rightarrow> bool" where
  "hashable (JList xs) = False"
| "hashable (JObj kvs) = False"
| "hashable _ = True"

fun is_JStr :: "json \<Rightarrow> bool" where
  "is_JStr (JStr s) = True"
| "is_JStr _ = False"

fun str_of :: "json \<Rightarrow> string" where
  "str_of (JStr s) = s"
| "str_of _ = []"

definition py_distinct :: "json list \<Rightarrow> json list" where
  "py_distinct xs = foldl (\<lambda>acc x. if list_ex (py_eq x) acc then acc else acc @ [x]) [] xs"

fun py_set :: "json \<Rightarrow> pyerr + string set \<times> json list" where
  "py_set (JList xs) =
     (if list_all hashable xs
      then Inr (set (map str_of (filter is_JStr xs)),
                py_distinct (filter (\<lambda>x. \<not> is_JStr x) xs))
      else Inl TypeError)"
| "py_set (JStr s) = Inr (set (map (\<lambda>c. [c]) s), [])"
| "py_set (JObj kvs) = Inr (set (map fst kvs), [])"
| "py_set _ = Inl TypeError"

text \<open>
  \<open>sorted(list(s))\<close> for such a set: strings sort among themselves, numbers and booleans
  among themselves; any other comparison raises \<open>TypeError\<close>.
\<close>

fun num_of :: "json \<Rightarrow> int option" where
  "num_of (JInt n) = Some n"
| "num_of (JBool b) = Some (if b then 1 else 0)"
| "num_of _ = None"

definition py_sorted :: "string set \<Rightarrow> json list \<Rightarrow> pyerr + json list" where
  "py_sorted strs others =
     (if others = [] then Inr (map JStr (sorted_list_of_set strs))
      else if strs \<noteq> {} then Inl TypeError
      else if length others \<le> 1 then Inr others
      else if list_all (\<lambda>x. num_of x \<noteq> None) others
      then Inr (sort_key (\<lambda>x. case num_of x of Some n \<Rightarrow> n | None \<Rightarrow> 0) others)
      else Inl TypeError)"

text \<open>\<open>d[k] = v\<close> on a dict.\<close>

fun py_setitem :: "json \<Rightarrow> string \<Rightarrow> json \<Rightarrow> pyerr + json" where
  "py_setitem (JObj kvs) k v = Inr (JObj (AList.update k v kvs))"
| "py_setitem _ k v = Inl TypeError"

text \<open>
  The body of the loop of \<open>tag_file\<close> for one \<open>path\<close>: \<open>Inr True\<close> when the file counts as
  processed, \<open>Inl e\<close> when exception \<open>e\<close> leaves the function.  A sidecar document that is
  not a dict raises \<open>TypeError\<close>, at the membership test, at the assignment or at the
  subscript.
\<close>

definition tag_one ::
  "env \<Rightarrow> string set \<Rightarrow> string set \<Rightarrow> path \<Rightarrow> world \<Rightarrow> (pyerr + bool) \<times> world" where
  "tag_one E add_tags remove_tags p w =
     (if \<not> isfile w p \<or> basename p = METADATA_FILE then (Inr False, w)
      else
        (let folder = dirname p;
             file_key = basename p
         in case load_metadata E folder w of
              (JObj kvs, w1) \<Rightarrow>
                (let entry = (case map_of kvs file_key of
                                None \<Rightarrow> JObj [(''tags'', JList [])]
                              | Some e \<Rightarrow> e)
                 in case py_get entry ''tags'' (JList []) of
                      Inl e \<Rightarrow> (Inl e, w1)
                    | Inr stored \<Rightarrow>
                        (case py_set stored of
                           Inl e \<Rightarrow> (Inl e, w1)
                         | Inr (current_tags, others) \<Rightarrow>
                             (let updated_tags = (current_tags \<union> add_tags) - remove_tags
                              in if updated_tags \<noteq> current_tags then
                                   (case py_sorted updated_tags others of
                                      Inl e \<Rightarrow> (Inl e, w1)
                                    | Inr new_tags \<Rightarrow>
                                        (case py_setitem entry ''tags'' (JList new_tags) of
                                           Inl e \<Rightarrow> (Inl e, w1)
                                         | Inr entry' \<Rightarrow>
                                             (let metadata = JObj (AList.update file_key entry' kvs);
                                                  w2 = save_metadata E folder metadata w1
                                              in if others \<noteq> [] then (Inl TypeError, w2)
                                                 else (Inr True,
                                                       say (TagsUpdated p (map str_of new_tags)) w2))))
                                 else if others \<noteq> [] then (Inl TypeError, w1)
                                 else (Inr False, say (NoTagChanges p current_tags) w1))))
            | (_, w1) \<Rightarrow> (Inl TypeError, w1)))"

primrec tag_loop ::
  "env \<Rightarrow> string set \<Rightarrow> string set \<Rightarrow> path list \<Rightarrow> nat \<Rightarrow> world \<Rightarrow> (pyerr + nat) \<times> world" where
  "tag_loop E add_tags remove_tags [] processed_count w = (Inr processed_count, w)"
| "tag_loop E add_tags remove_tags (p # rest) processed_count w =
     (case tag_one E add_tags remove_tags p w of
        (Inl e, w') \<Rightarrow> (Inl e, w')
      | (Inr changed, w') \<Rightarrow>
          tag_loop E add_tags remove_tags rest
            (if changed then processed_count + 1 else processed_count) w')"

definition target_paths :: "world \<Rightarrow> path \<Rightarrow> bool \<Rightarrow> path list option" where
  "target_paths w file_path recursive =
     (if isfile w file_path then Some [file_path]
      else if isdir w file_path then
        (if recursive then Some (walk_files w file_path)
         else Some (map (join file_path)
                      (filter (\<lambda>f. isfile w (join file_path f)) (os_listdir w file_path))))
      else None)"

definition tag_file ::
  "env \<Rightarrow> path \<Rightarrow> string \<Rightarrow> string \<Rightarrow> bool \<Rightarrow> world \<Rightarrow> pyerr option \<times> world" where
  "tag_file E file_path add_tags_str remove_tags_str recursive w =
     (if \<not> exists w file_path then (None, say (ErrPathNotFound file_path) w)
      else
        (case target_paths w file_path recursive of
           None \<Rightarrow> (None, say (ErrNeitherFileNorDir file_path) w)
         | Some targets \<Rightarrow>
             (case tag_loop E (parse_tags add_tags_str) (parse_tags remove_tags_str) targets 0 w of
                (Inl e, w') \<Rightarrow> (Some e, w')
              | (Inr processed_count, w') \<Rightarrow> (None, say (TagFinished processed_count) w'))))"

section \<open>Searching\<close>

text \<open>Sequencing of steps that may raise: the first exception ends the evaluation.\<close>

definition pbind :: "pyerr + 'a \<Rightarrow> ('a \<Rightarrow> pyerr + 'b) \<Rightarrow> pyerr + 'b" where
  "pbind x f = (case x of Inl e \<Rightarrow> Inl e | Inr v \<Rightarrow> f v)"

text \<open>
  \<open>timedelta(days=days)\<close> raises \<open>OverflowError\<close> beyond 999999999 days; a day has
  86400000000 microseconds.  The clock is read before the \<open>timedelta\<close> is built.
\<close>

definition is_file_older_than :: "env \<Rightarrow> path \<Rightarrow> int \<Rightarrow> world \<Rightarrow> (pyerr + bool) \<times> world" where
  "is_file_older_than E filepath days w =
     (case os_stat w filepath of
        Inl e \<Rightarrow> (Inr False, say (ErrAccessingFile filepath e) w)
      | Inr (file_size, mod_time) \<Rightarrow>
          (let now = clock E (ticks w);
               w1 = w\<lparr>ticks := ticks w + 1\<rparr>
           in if \<bar>days\<bar> > 999999999 then (Inl OverflowError, w1)
              else (Inr (now - mod_time > days * 86400000000), w1)))"

text \<open>\<open>os.path.splitext(filename)[1].lstrip('.').lower()\<close>\<close>

definition file_type_of :: "string \<Rightarrow> string" where
  "file_type_of filename =
     (let r = rev filename;
          ext = takeWhile (\<lambda>c. c \<noteq> CHR ''.'') r;
          rest = dropWhile (\<lambda>c. c \<noteq> CHR ''.'') r
      in if rest \<noteq> [] \<and> list_ex (\<lambda>c. c \<noteq> CHR ''.'') (tl rest) then lower (rev ext) else [])"

text \<open>\<open>int(x)\<close>: a string is stripped, then an optional sign and decimal digits, single
  underscores allowed between digits.\<close>

definition is_digit :: "char \<Rightarrow> bool" where
  "is_digit c = (48 \<le> (of_char c :: nat) \<and> (of_char c :: nat) \<le> 57)"

fun digits_ok :: "string \<Rightarrow> bool" where
  "digits_ok [] = False"
| "digits_ok [c] = is_digit c"
| "digits_ok (c # d # cs) =
     (if is_digit c then (if d = CHR ''_'' then cs \<noteq> [] \<and> digits_ok cs else digits_ok (d # cs))
      else False)"

definition digits_val :: "string \<Rightarrow> int" where
  "digits_val cs = foldl (\<lambda>acc c. acc * 10 + (int (of_char c) - 48)) 0 (filter is_digit cs)"

definition parse_int :: "string \<Rightarrow> int option" where
  "parse_int s =
     (let t = strip s;
          neg = (t \<noteq> [] \<and> hd t = CHR ''-'');
          body = (if t \<noteq> [] \<and> (hd t = CHR ''-'' \<or> hd t = CHR ''+'') then tl t else t)
      in if digits_ok body then Some (if neg then - digits_val body else digits_val body)
         else None)"

fun py_int :: "json \<Rightarrow> pyerr + int" where
  "py_int (JInt n) = Inr n"
| "py_int (JBool b) = Inr (if b then 1 else 0)"
| "py_int (JStr s) = (case parse_int s of Some n \<Rightarrow> Inr n | None \<Rightarrow> Inl ValueError)"
| "py_int _ = Inl TypeError"

text \<open>\<open>n > x\<close> and \<open>n < x\<close> for an int \<open>n\<close>.\<close>

definition py_gt :: "int \<Rightarrow> json \<Rightarrow> pyerr + bool" where
  "py_gt n x = (case num_of x of Some m \<Rightarrow> Inr (n > m) | None \<Rightarrow> Inl TypeError)"

definition py_lt :: "int \<Rightarrow> json \<Rightarrow> pyerr + bool" where
  "py_lt n x = (case num_of x of Some m \<Rightarrow> Inr (n < m) | None \<Rightarrow> Inl TypeError)"

text \<open>\<open>all(tag in tags for tag in wanted)\<close> stops at the first tag that is not in.\<close>

fun all_in :: "json list \<Rightarrow> json \<Rightarrow> pyerr + bool" where
  "all_in [] tags = Inr True"
| "all_in (tag # rest) tags =
     pbind (py_in tag tags) (\<lambda>b. if b then all_in rest tags else Inr False)"

text \<open>The stored facts of one file: tags, mood value and mood name.\<close>

definition stored_facts :: "json \<Rightarrow> string \<Rightarrow> pyerr + json \<times> json \<times> json" where
  "stored_facts metadata_from_file filename =
     pbind (pbind (py_get metadata_from_file filename (JObj [])) (\<lambda>e. py_get e ''tags'' (JList [])))
       (\<lambda>tags.
     pbind (pbind (pbind (py_get metadata_from_file filename (JObj []))
                         (\<lambda>e. py_get e ''mood'' (JObj [])))
                  (\<lambda>m. py_get m ''value'' JNull))
       (\<lambda>mood.
     pbind (pbind (pbind (py_get metadata_from_file filename (JObj []))
                         (\<lambda>e. py_get e ''mood'' (JObj [])))
                  (\<lambda>m. py_get m ''name'' JNull))
       (\<lambda>mood_name. Inr (tags, mood, mood_name))))"

text \<open>The conditions of \<open>search_meta\<close>, one definition per \<open>if\<close> of the source; each
  returns whether \<open>match\<close> is set to \<open>False\<close>.\<close>

definition type_fails :: "json \<Rightarrow> string \<Rightarrow> pyerr + bool" where
  "type_fails query file_type =
     pbind (py_in (JStr ''type'') query) (\<lambda>present.
       if present then
         pbind (py_getitem query ''type'') (\<lambda>v.
         pbind (py_lower v) (\<lambda>wanted. Inr (file_type \<noteq> wanted)))
       else Inr False)"

definition size_fails :: "json \<Rightarrow> nat \<Rightarrow> pyerr + bool" where
  "size_fails query file_size =
     pbind (py_in (JStr ''size'') query) (\<lambda>present.
       if present then
         pbind (py_getitem query ''size'') (\<lambda>sz.
         pbind (pbind (py_in (JStr ''gt'') sz) (\<lambda>has_gt.
                  if has_gt then
                    pbind (py_getitem sz ''gt'') (\<lambda>v.
                    pbind (py_gt (int file_size) v) (\<lambda>ok. Inr (\<not> ok)))
                  else Inr False)) (\<lambda>gt_fails.
         pbind (pbind (py_in (JStr ''lt'') sz) (\<lambda>has_lt.
                  if has_lt then
                    pbind (py_getitem sz ''lt'') (\<lambda>v.
                    pbind (py_lt (int file_size) v) (\<lambda>ok. Inr (\<not> ok)))
                  else Inr False)) (\<lambda>lt_fails.
         Inr (gt_fails \<or> lt_fails))))
       else Inr False)"

definition age_fails :: "env \<Rightarrow> json \<Rightarrow> path \<Rightarrow> world \<Rightarrow> (pyerr + bool) \<times> world" where
  "age_fails E query filepath w =
     (case py_in (JStr ''ageDays'') query of
        Inl e \<Rightarrow> (Inl e, w)
      | Inr present \<Rightarrow>
          if present then
            (case pbind (py_getitem query ''ageDays'') py_int of
               Inl e \<Rightarrow> (Inl e, w)
             | Inr required_age \<Rightarrow>
                 (case is_file_older_than E filepath required_age w of
                    (Inl e, w1) \<Rightarrow> (Inl e, w1)
                  | (Inr older, w1) \<Rightarrow> (Inr (\<not> older), w1)))
          else (Inr False, w))"

definition tags_fail :: "json \<Rightarrow> json \<Rightarrow> pyerr + bool" where
  "tags_fail query tags =
     pbind (py_in (JStr ''tags'') query) (\<lambda>present.
       if present then
         pbind (py_getitem query ''tags'') (\<lambda>v.
           case v of
             JList wanted \<Rightarrow> pbind (all_in wanted tags) (\<lambda>ok. Inr (\<not> ok))
           | JStr s \<Rightarrow> pbind (py_in (JStr s) tags) (\<lambda>ok. Inr (\<not> ok))
           | _ \<Rightarrow> Inr False)
       else Inr False)"

definition mood_fails :: "json \<Rightarrow> json \<Rightarrow> pyerr + bool" where
  "mood_fails query mood =
     pbind (py_in (JStr ''mood'') query) (\<lambda>present.
       if present then
         pbind (py_getitem query ''mood'') (\<lambda>v.
         pbind (py_lower v) (\<lambda>wanted. Inr (\<not> py_eq mood (JStr wanted))))
       else Inr False)"

definition mood_name_fails :: "json \<Rightarrow> json \<Rightarrow> pyerr + bool" where
  "mood_name_fails query mood_name =
     pbind (py_in (JStr ''mood_name'') query) (\<lambda>present.
       if present then
         pbind (py_getitem query ''mood_name'') (\<lambda>v. Inr (\<not> py_eq mood_name v))
       else Inr False)"

text \<open>
  The body of the \<open>try\<close> of \<open>search_meta\<close> for one file: \<open>Inr True\<close> when the file is
  found, \<open>Inl e\<close> when \<open>e\<close> is raised.  Every condition is evaluated, in the order of the
  source, whether or not an earlier one has already failed.
\<close>

definition eval_entry ::
  "env \<Rightarrow> json \<Rightarrow> json \<Rightarrow> path \<Rightarrow> string \<Rightarrow> world \<Rightarrow> (pyerr + bool) \<times> world" where
  "eval_entry E query metadata_from_file filepath filename w =
     (case os_stat w filepath of
        Inl e \<Rightarrow> (Inl e, w)
      | Inr (file_size, mod_time) \<Rightarrow>
          (case stored_facts metadata_from_file filename of
             Inl e \<Rightarrow> (Inl e, w)
           | Inr (tags, mood, mood_name) \<Rightarrow>
               (case type_fails query (file_type_of filename) of
                  Inl e \<Rightarrow> (Inl e, w)
                | Inr f1 \<Rightarrow>
                    (case size_fails query file_size of
                       Inl e \<Rightarrow> (Inl e, w)
                     | Inr f2 \<Rightarrow>
                         (case age_fails E query filepath w of
                            (Inl e, w1) \<Rightarrow> (Inl e, w1)
                          | (Inr f3, w1) \<Rightarrow>
                              (case pbind (tags_fail query tags) (\<lambda>f4.
                                    pbind (mood_fails query mood) (\<lambda>f5.
                                    pbind (mood_name_fails query mood_name) (\<lambda>f6.
                                    Inr (\<not> (f1 \<or> f2 \<or> f3 \<or> f4 \<or> f5 \<or> f6))))) of
                                 Inl e \<Rightarrow> (Inl e, w1)
                               | Inr match \<Rightarrow>
                                   if match then
                                     (case py_join tags of
                                        Inl e \<Rightarrow> (Inl e, w1)
                                      | Inr shown \<Rightarrow>
                                          (Inr True,
                                           say (MetaFound filepath file_size mod_time
                                                  (file_type_of filename) shown) w1))
                                   else (Inr False, w1)))))))"

text \<open>One \<open>filename\<close> of the inner loop, with the \<open>except\<close> clauses: \<open>OSError\<close> and
  \<open>ValueError\<close> are reported and the loop goes on; anything else leaves \<open>search_meta\<close>.\<close>

definition search_entry ::
  "env \<Rightarrow> json \<Rightarrow> json \<Rightarrow> path \<Rightarrow> string \<Rightarrow> nat \<times> world \<Rightarrow> (pyerr + nat) \<times> world" where
  "search_entry E query metadata_from_file dir filename cw =
     (case cw of (found_count, w) \<Rightarrow>
        (let filepath = join dir filename
         in if \<not> isfile w filepath \<or> filename = METADATA_FILE then (Inr found_count, w)
            else
              (case eval_entry E query metadata_from_file filepath filename w of
                 (Inr found, w1) \<Rightarrow> (Inr (if found then found_count + 1 else found_count), w1)
               | (Inl e, w1) \<Rightarrow>
                   if is_OSError e then (Inr found_count, say (ErrAccessingFile filepath e) w1)
                   else if e = ValueError then (Inr found_count, say (ErrProcessingQuery filepath) w1)
                   else (Inl e, w1))))"

primrec search_entries ::
  "env \<Rightarrow> json \<Rightarrow> json \<Rightarrow> path \<Rightarrow> string list \<Rightarrow> nat \<times> world \<Rightarrow> (pyerr + nat) \<times> world" where
  "search_entries E query md dir [] cw = (Inr (fst cw), snd cw)"
| "search_entries E query md dir (filename # rest) cw =
     (case search_entry E query md dir filename cw of
        (Inl e, w1) \<Rightarrow> (Inl e, w1)
      | (Inr n, w1) \<Rightarrow> search_entries E query md dir rest (n, w1))"

primrec search_dirs ::
  "env \<Rightarrow> json \<Rightarrow> (path \<times> string list \<times> string list) list \<Rightarrow> nat \<times> world
     \<Rightarrow> (pyerr + nat) \<times> world" where
  "search_dirs E query [] cw = (Inr (fst cw), snd cw)"
| "search_dirs E query (triple # rest) cw =
     (case triple of (dir, dirs, files) \<Rightarrow>
        (case load_metadata E dir (snd cw) of
           (metadata_from_file, w1) \<Rightarrow>
             (case search_entries E query metadata_from_file dir files (fst cw, w1) of
                (Inl e, w2) \<Rightarrow> (Inl e, w2)
              | (Inr n, w2) \<Rightarrow> search_dirs E query rest (n, w2))))"

definition search_meta :: "env \<Rightarrow> path \<Rightarrow> string \<Rightarrow> world \<Rightarrow> pyerr option \<times> world" where
  "search_meta E folder json_query_str w =
     (if \<not> isdir w folder then (None, say (ErrFolderNotFound folder) w)
      else
        (case json_loads E json_query_str of
           None \<Rightarrow> (None, say ErrInvalidQuery w)
         | Some query \<Rightarrow>
             (let w1 = say (SearchMetaStart folder query) w
              in case search_dirs E query (os_walk w1 folder) (0, w1) of
                   (Inl e, w2) \<Rightarrow> (Some e, w2)
                 | (Inr found_count, w2) \<Rightarrow> (None, say (SearchMetaFinished found_count) w2))))"

text \<open>\<open>search_tag\<close>: one \<open>filename\<close>, one directory, the walk.\<close>

definition tag_entry :: "string \<Rightarrow> json \<Rightarrow> path \<Rightarrow> string \<Rightarrow> nat \<times> world \<Rightarrow> (pyerr + nat) \<times> world" where
  "tag_entry tag metadata dir filename cw =
     (case cw of (found_count, w) \<Rightarrow>
        if filename = METADATA_FILE then (Inr found_count, w)
        else
          (case pbind (py_in (JStr filename) metadata) (\<lambda>known.
                  if known then
                    pbind (py_getitem metadata filename) (\<lambda>entry.
                    pbind (py_in (JStr ''tags'') entry) (\<lambda>has_tags.
                      if has_tags then
                        pbind (py_getitem entry ''tags'') (\<lambda>tags.
                        pbind (py_in (JStr tag) tags) (\<lambda>hit.
                          if hit then pbind (py_join tags) (\<lambda>shown. Inr (Some shown))
                          else Inr None))
                      else Inr None))
                  else Inr None) of
             Inl e \<Rightarrow> (Inl e, w)
           | Inr None \<Rightarrow> (Inr found_count, w)
           | Inr (Some shown) \<Rightarrow>
               (Inr (found_count + 1), say (TagFound (join dir filename) shown) w)))"

primrec tag_entries ::
  "string \<Rightarrow> json \<Rightarrow> path \<Rightarrow> string list \<Rightarrow> nat \<times> world \<Rightarrow> (pyerr + nat) \<times> world" where
  "tag_entries tag md dir [] cw = (Inr (fst cw), snd cw)"
| "tag_entries tag md dir (filename # rest) cw =
     (case tag_entry tag md dir filename cw of
        (Inl e, w1) \<Rightarrow> (Inl e, w1)
      | (Inr n, w1) \<Rightarrow> tag_entries tag md dir rest (n, w1))"

primrec tag_dirs ::
  "env \<Rightarrow> string \<Rightarrow> (path \<times> string list \<times> string list) list \<Rightarrow> nat \<times> world
     \<Rightarrow> (pyerr + nat) \<times> world" where
  "tag_dirs E tag [] cw = (Inr (fst cw), snd cw)"
| "tag_dirs E tag (triple # rest) cw =
     (case triple of (dir, dirs, files) \<Rightarrow>
        (case load_metadata E dir (snd cw) of
           (metadata, w1) \<Rightarrow>
             (case tag_entries tag metadata dir files (fst cw, w1) of
                (Inl e, w2) \<Rightarrow> (Inl e, w2)
              | (Inr n, w2) \<Rightarrow> tag_dirs E tag rest (n, w2))))"

definition search_tag :: "env \<Rightarrow> path \<Rightarrow> string \<Rightarrow> world \<Rightarrow> pyerr option \<times> world" where
  "search_tag E folder tag w =
     (if \<not> isdir w folder then (None, say (ErrFolderNotFound folder) w)
      else
        (let w1 = say (SearchTagStart tag folder) w
         in case tag_dirs E tag (os_walk w1 folder) (0, w1) of
              (Inl e, w2) \<Rightarrow> (Some e, w2)
            | (Inr found_count, w2) \<Rightarrow> (None, say (SearchTagFinished found_count tag) w2)))"

section \<open>Worlds used to evaluate the theorems\<close>

text \<open>
  A stand-in for the \<open>json\<close> module on the documents below: \<open>json_dumps\<close> writes a
  document of the table as its text, \<open>json_loads\<close> reads such a text back and rejects
  everything else.
\<close>

definition demo_docs :: "(string \<times> json) list" where
  "demo_docs =
     [(''{}'', JObj []),
      (''{f:{tags:[]}}'', JObj [(''f'', JObj [(''tags'', JList [])])]),
      (''{f:{tags:[a]}}'', JObj [(''f'', JObj [(''tags'', JList [JStr ''a''])])]),
      (''{f:{tags:[a,b]}}'', JObj [(''f'', JObj [(''tags'', JList [JStr ''a'', JStr ''b''])])]),
      (''{f:{tags:[b,c]}}'', JObj [(''f'', JObj [(''tags'', JList [JStr ''b'', JStr ''c''])])]),
      (''{f:{tags:[a]},g:{tags:[a]}}'',
       JObj [(''f'', JObj [(''tags'', JList [JStr ''a''])]),
             (''g'', JObj [(''tags'', JList [JStr ''a''])])])]"

definition demo_env :: env where
  "demo_env =
     \<lparr>json_loads = map_of demo_docs,
      json_dumps = (\<lambda>j. case filter (\<lambda>e. snd e = j) demo_docs of [] \<Rightarrow> ''?'' | e # es \<Rightarrow> fst e),
      sha256 = (\<lambda>s. CHR ''#'' # s),
      clock = (\<lambda>i. 0)\<rparr>"

definition locked_world :: world where
  "locked_world =
     \<lparr>root = Dir False [(''a.bin'', File ''x'' 0 False True), (''b.bin'', File ''x'' 0 True True)],
      cwd = [], free = 100, ticks = 0, out = [], calls = []\<rparr>"


definition twin_world :: world where
  "twin_world =
     \<lparr>root = Dir False
        [(''a'', Dir False [(''.superhxpro_metadata.json'', File ''{}'' 0 True True)]),
         (''b'', Dir False [(''.superhxpro_metadata.json'', File ''{}'' 0 True True)])],
      cwd = [], free = 100, ticks = 0, out = [], calls = []\<rparr>"

text \<open>Two worlds with the same file system.\<close>

definition same_fs :: "world \<Rightarrow> world \<Rightarrow> bool" where
  "same_fs w w' = (root w' = root w \<and> cwd w' = cwd w \<and> free w' = free w)"

definition full_world :: world where
  "full_world =
     \<lparr>root = Dir False
        [(''d'', Dir False [(''.superhxpro_metadata.json'', File ''{}'' 0 True True)]),
         (''ro'', Dir False [(''.superhxpro_metadata.json'', File ''{}'' 0 True False)])],
      cwd = [], free = 3, ticks = 0, out = [], calls = []\<rparr>"

definition doc_a :: json where
  "doc_a = JObj [(''f'', JObj [(''tags'', JList [JStr ''a''])])]"


section \<open>Basic facts\<close>

text \<open>Printing and recording a call leave the file system alone.\<close>

lemma node_at_say [simp]: "node_at (say m w) p = node_at w p"
  by (cases p) (simp add: node_at_def resolve_def say_def)

lemma node_at_log_call [simp]: "node_at (log_call c w) p = node_at w p"
  by (cases p) (simp add: node_at_def resolve_def log_call_def)

lemma exists_say [simp]: "exists (say m w) p = exists w p"
  by (simp add: exists_def)

lemma exists_log_call [simp]: "exists (log_call c w) p = exists w p"
  by (simp add: exists_def)

lemma isfile_say [simp]: "isfile (say m w) p = isfile w p"
  by (simp add: isfile_def)

lemma isfile_log_call [simp]: "isfile (log_call c w) p = isfile w p"
  by (simp add: isfile_def)

lemma isdir_say [simp]: "isdir (say m w) p = isdir w p"
  by (simp add: isdir_def)

lemma isdir_log_call [simp]: "isdir (log_call c w) p = isdir w p"
  by (simp add: isdir_def)

lemma read_file_say [simp]: "read_file (say m w) p = read_file w p"
  by (simp add: read_file_def)

lemma read_file_log_call [simp]: "read_file (log_call c w) p = read_file w p"
  by (simp add: read_file_def)

lemma os_stat_say [simp]: "os_stat (say m w) p = os_stat w p"
  by (simp add: os_stat_def)

lemma os_stat_log_call [simp]: "os_stat (log_call c w) p = os_stat w p"
  by (simp add: os_stat_def)

lemma root_say [simp]: "root (say m w) = root w"
  by (simp add: say_def)

lemma root_log_call [simp]: "root (log_call c w) = root w"
  by (simp add: log_call_def)

lemma free_say [simp]: "free (say m w) = free w"
  by (simp add: say_def)

lemma free_log_call [simp]: "free (log_call c w) = free w"
  by (simp add: log_call_def)


lemma cwd_say [simp]: "cwd (say m w) = cwd w"
  by (simp add: say_def)

lemma cwd_log_call [simp]: "cwd (log_call c w) = cwd w"
  by (simp add: log_call_def)

lemma calls_say [simp]: "calls (say m w) = calls w"
  by (simp add: say_def)

lemma out_log_call [simp]: "out (log_call c w) = out w"
  by (simp add: log_call_def)

lemma calls_log_call [simp]: "calls (log_call c w) = calls w @ [c]"
  by (simp add: log_call_def)

lemma out_say [simp]: "out (say m w) = out w @ [m]"
  by (simp add: say_def)

lemma same_fs_node_at: "same_fs w w' \<Longrightarrow> node_at w' p = node_at w p"
  by (cases p) (simp add: same_fs_def node_at_def resolve_def)

lemma same_fs_exists: "same_fs w w' \<Longrightarrow> exists w' p = exists w p"
  by (simp add: exists_def same_fs_node_at)

lemma same_fs_trans: "same_fs w w' \<Longrightarrow> same_fs w' w'' \<Longrightarrow> same_fs w w''"
  by (simp add: same_fs_def)

section \<open>Deduplication skips a file it cannot hash\<close>

text \<open>
  C10.  When the hash of a regular file cannot be computed (reading it raises), the loop
  body of \<open>deduplicate\<close> leaves the digest table and both counters as they were, reports
  only the read error, removes nothing, and the scan goes on with the remaining files.
\<close>

theorem unreadable_file_is_skipped:
  assumes "isfile w p" and "read_file w p = Inl e"
  shows "dedup_file E dry_run p (st, w) = (st, say (ErrHashing p e) w)
       \<and> root (say (ErrHashing p e) w) = root w
       \<and> dedup_files E dry_run (p # rest) (st, w)
           = dedup_files E dry_run rest (st, say (ErrHashing p e) w)"
  using assms by (simp add: dedup_file_def get_file_hash_def say_def)

theorem unreadable_file_is_skipped_witness:
  "isfile locked_world (Path True [''a.bin''])
   \<and> read_file locked_world (Path True [''a.bin'']) = Inl PermissionError
   \<and> dedup_file demo_env False (Path True [''a.bin''])
        (\<lparr>hashes = Map.empty, duplicates_found = 0, deleted_count = 0\<rparr>, locked_world)
      = (\<lparr>hashes = Map.empty, duplicates_found = 0, deleted_count = 0\<rparr>,
         say (ErrHashing (Path True [''a.bin'']) PermissionError) locked_world)"
proof -
  have f: "isfile locked_world (Path True [''a.bin''])"
    by (simp add: locked_world_def isfile_def node_at_def resolve_def)
  have r: "read_file locked_world (Path True [''a.bin'']) = Inl PermissionError"
    by (simp add: locked_world_def read_file_def node_at_def resolve_def)
  show ?thesis
    using f r unreadable_file_is_skipped [OF f r] by simp
qed

section \<open>Loading the sidecar\<close>





section \<open>Deduplication and the sidecar file\<close>

text \<open>
  C2.  \<open>deduplicate\<close> has no test for the sidecar's name (\<open>search_tag\<close>, \<open>search_meta\<close>
  and \<open>tag_file\<close> have one): two directories whose sidecar files hold the same text lose
  the second sidecar, which is hashed, reported as a duplicate and removed.
\<close>

theorem deduplicate_removes_a_sidecar:
  "isfile twin_world (Path True [''b'', METADATA_FILE])
   \<and> \<not> isfile (deduplicate demo_env (Path True []) False twin_world)
          (Path True [''b'', METADATA_FILE])
   \<and> out (deduplicate demo_env (Path True []) False twin_world) =
       [DedupSearching (Path True []) False,
        DuplicateFound (Path True [''b'', METADATA_FILE]) (Path True [''a'', METADATA_FILE]),
        DedupDeleted (Path True [''b'', METADATA_FILE]),
        DedupFinished 1 False 1]"
  by code_simp

section \<open>A tag operation that changes nothing\<close>

lemma load_missing:
  "\<not> exists w (join d METADATA_FILE) \<Longrightarrow> load_metadata E d w = (JObj [], log_call (Load d) w)"
  by (simp add: load_metadata_def Let_def)

lemma tag_one_noop:
  assumes "\<not> exists w (join (dirname p) METADATA_FILE)" and "add_tags - remove_tags = {}"
  shows "\<exists>w'. tag_one E add_tags remove_tags p w = (Inr False, w') \<and> same_fs w w'
              \<and> (\<forall>c \<in> set (calls w') - set (calls w). c = Load (dirname p))"
  using assms
  by (auto simp: tag_one_def Let_def load_missing py_distinct_def same_fs_def log_call_def say_def)

lemma tag_loop_noop:
  assumes "add_tags - remove_tags = {}"
  shows "\<forall>p \<in> set targets. \<not> exists w (join (dirname p) METADATA_FILE)
         \<Longrightarrow> \<exists>w'. tag_loop E add_tags remove_tags targets n w = (Inr n, w') \<and> same_fs w w'
                   \<and> (\<forall>c \<in> set (calls w') - set (calls w). \<exists>d. c = Load d)"
proof (induction targets arbitrary: w)
  case Nil
  then show ?case by (simp add: same_fs_def)
next
  case (Cons p rest)
  from Cons.prems have "\<not> exists w (join (dirname p) METADATA_FILE)" by simp
  from tag_one_noop [OF this assms, of E]
  obtain w1 where s1: "tag_one E add_tags remove_tags p w = (Inr False, w1)" and f1: "same_fs w w1"
    and c1: "\<forall>c \<in> set (calls w1) - set (calls w). c = Load (dirname p)"
    by blast
  from Cons.prems f1 have "\<forall>q \<in> set rest. \<not> exists w1 (join (dirname q) METADATA_FILE)"
    by (simp add: same_fs_exists)
  from Cons.IH [OF this]
  obtain w2 where s2: "tag_loop E add_tags remove_tags rest n w1 = (Inr n, w2)" and f2: "same_fs w1 w2"
    and c2: "\<forall>c \<in> set (calls w2) - set (calls w1). \<exists>d. c = Load d"
    by blast
  have "\<forall>c \<in> set (calls w2) - set (calls w). \<exists>d. c = Load d"
    using c1 c2 by blast
  with s1 s2 f1 f2 show ?case
    by (auto intro: same_fs_trans)
qed

text \<open>
  C9.  When every tag to add is also removed and no directory of a target file has a
  sidecar file, \<open>tag_file\<close> returns normally, leaves the file system as it was (no path
  comes into existence, so no sidecar file is created) and never calls \<open>_save_metadata\<close>.
\<close>

theorem noop_tag_creates_no_sidecar:
  assumes "parse_tags add_tags_str - parse_tags remove_tags_str = {}"
    and "\<forall>targets. target_paths w file_path recursive = Some targets \<longrightarrow>
           (\<forall>p \<in> set targets. \<not> exists w (join (dirname p) METADATA_FILE))"
  shows "fst (tag_file E file_path add_tags_str remove_tags_str recursive w) = None
       \<and> root (snd (tag_file E file_path add_tags_str remove_tags_str recursive w)) = root w
       \<and> free (snd (tag_file E file_path add_tags_str remove_tags_str recursive w)) = free w
       \<and> (\<forall>p. exists (snd (tag_file E file_path add_tags_str remove_tags_str recursive w)) p
               = exists w p)
       \<and> (\<forall>d. Save d \<notin> set (calls (snd (tag_file E file_path add_tags_str remove_tags_str recursive w)))
               - set (calls w))"
proof (cases "exists w file_path")
  case False
  then show ?thesis by (simp add: tag_file_def exists_def)
next
  case True
  show ?thesis
  proof (cases "target_paths w file_path recursive")
    case None
    with True show ?thesis by (simp add: tag_file_def exists_def)
  next
    case (Some targets)
    with assms(2) have "\<forall>p \<in> set targets. \<not> exists w (join (dirname p) METADATA_FILE)" by simp
    from tag_loop_noop [OF assms(1) this, of E 0]
    obtain w' where l: "tag_loop E (parse_tags add_tags_str) (parse_tags remove_tags_str) targets 0 w
                        = (Inr 0, w')"
      and f: "same_fs w w'" and c: "\<forall>c \<in> set (calls w') - set (calls w). \<exists>d. c = Load d"
      by blast
    from True Some l f c show ?thesis
      by (auto simp: tag_file_def same_fs_def exists_def same_fs_node_at [OF f])
  qed
qed

lemma ev_tags_cancel: "parse_tags ''x, y'' - parse_tags ''y,x'' = {}"
  by code_simp

lemma ev_targets:
  "target_paths locked_world (Path True []) False
     = Some [Path True [''a.bin''], Path True [''b.bin'']]"
  by code_simp

lemma ev_no_sidecar: "\<not> exists locked_world (join (Path True []) METADATA_FILE)"
  by code_simp

theorem noop_tag_creates_no_sidecar_witness:
  "parse_tags ''x, y'' - parse_tags ''y,x'' = {}
   \<and> target_paths locked_world (Path True []) False
        = Some [Path True [''a.bin''], Path True [''b.bin'']]
   \<and> \<not> exists locked_world (join (Path True []) METADATA_FILE)
   \<and> fst (tag_file demo_env (Path True []) ''x, y'' ''y,x'' False locked_world) = None
   \<and> root (snd (tag_file demo_env (Path True []) ''x, y'' ''y,x'' False locked_world))
        = root locked_world
   \<and> \<not> exists (snd (tag_file demo_env (Path True []) ''x, y'' ''y,x'' False locked_world))
          (join (Path True []) METADATA_FILE)"
proof -
  have h: "\<forall>targets. target_paths locked_world (Path True []) False = Some targets \<longrightarrow>
             (\<forall>p \<in> set targets. \<not> exists locked_world (join (dirname p) METADATA_FILE))"
    using ev_no_sidecar by (simp add: ev_targets)
  show ?thesis
    using ev_tags_cancel ev_targets ev_no_sidecar
      noop_tag_creates_no_sidecar [OF ev_tags_cancel h, of demo_env]
    by simp
qed

section \<open>Facts about the file system operations\<close>

lemma map_of_append_new: "map_of es x = None \<Longrightarrow> map_of (es @ [(x, v)]) y = (if y = x then Some v else map_of es y)"
  by (induction es) auto

lemma lookup_put_same:
  "lookup t ps \<noteq> None \<or> (ps \<noteq> [] \<and> (\<exists>l es. lookup t (butlast ps) = Some (Dir l es)))
   \<Longrightarrow> lookup (put ps new t) ps = Some new"
proof (induction ps arbitrary: t)
  case Nil
  then show ?case by simp
next
  case (Cons x xs)
  show ?case
  proof (cases t)
    case (File c m r wr)
    with Cons.prems show ?thesis by (cases xs) auto
  next
    case (Dir l es)
    show ?thesis
    proof (cases "map_of es x")
      case None
      with Cons.prems Dir show ?thesis
        by (cases xs) (auto simp: map_add_def)
    next
      case (Some c)
      with Cons.prems Dir have "lookup c xs \<noteq> None \<or> (xs \<noteq> [] \<and> (\<exists>l es. lookup c (butlast xs) = Some (Dir l es)))"
        by (cases xs) auto
      from Cons.IH [OF this] Some Dir show ?thesis
        by (simp add: update_conv')
    qed
  qed
qed

lemma lookup_put_parent:
  "lookup t ps = Some (Dir l es) \<Longrightarrow> \<exists>es'. lookup (put (ps @ [x]) new t) ps = Some (Dir l es')"
proof (induction ps arbitrary: t)
  case Nil
  then show ?case by (auto split: option.splits)
next
  case (Cons y ys)
  then show ?case
    by (cases t) (auto simp: update_conv' split: option.splits)
qed

lemma mkdirs_isdir: "mkdirs ps t = Inr t' \<Longrightarrow> \<exists>l es. lookup t' ps = Some (Dir l es)"
proof (induction ps arbitrary: t t')
  case Nil
  then show ?case by (cases t) auto
next
  case (Cons x xs)
  then show ?case
    by (cases t) (auto simp: update_conv' map_of_append_new split: option.splits sum.splits if_splits)
qed

lemma mkdirs_existing: "lookup t ps = Some (Dir l es) \<Longrightarrow> mkdirs ps t = Inr t"
proof (induction ps arbitrary: t)
  case Nil
  then show ?case by simp
next
  case (Cons x xs)
  then show ?case
    by (cases t) (auto simp: map_of_eq_Some_iff update_triv split: option.splits)
qed

lemma mkdirs_keeps_files:
  "mkdirs ps t = Inr t' \<Longrightarrow> lookup t qs = Some (File c m r wr) \<Longrightarrow> lookup t' qs = Some (File c m r wr)"
proof (induction ps arbitrary: t t' qs)
  case Nil
  then show ?case by (cases t) auto
next
  case (Cons x xs)
  show ?case
  proof (cases t)
    case (File c' m' r' wr')
    with Cons.prems show ?thesis by simp
  next
    case (Dir l es)
    show ?thesis
    proof (cases qs)
      case Nil
      with Cons.prems Dir show ?thesis by simp
    next
      case (Cons y ys)
      with Cons.prems Dir Cons.IH show ?thesis
        by (auto simp: update_conv' map_of_append_new split: option.splits sum.splits if_splits)
    qed
  qed
qed


lemma resolve_cwd: "cwd w' = cwd w \<Longrightarrow> resolve w' p = resolve w p"
  by (cases p) (simp add: resolve_def)

lemma resolve_join: "resolve w d = Some ps \<Longrightarrow> resolve w (join d n) = Some (ps @ [n])"
  by (cases d) (auto simp: resolve_def split: if_splits)

lemma resolve_log_call [simp]: "resolve (log_call c w) p = resolve w p"
  by (cases p) (simp add: resolve_def log_call_def)

lemma resolve_say [simp]: "resolve (say m w) p = resolve w p"
  by (cases p) (simp add: resolve_def say_def)

lemma os_makedirs_log_call:
  "os_makedirs d (log_call c w) =
     (case os_makedirs d w of Inl e \<Rightarrow> Inl e | Inr w1 \<Rightarrow> Inr (log_call c w1))"
  by (auto simp: os_makedirs_def log_call_def resolve_cwd [of "w\<lparr>calls := calls w @ [c]\<rparr>" w]
           split: option.splits sum.splits)

lemma open_w_log_call:
  "open_w E p (log_call c w) =
     (case open_w E p w of Inl e \<Rightarrow> Inl e | Inr w1 \<Rightarrow> Inr (log_call c w1))"
  by (auto simp: open_w_def log_call_def resolve_cwd [of "w\<lparr>calls := calls w @ [c]\<rparr>" w]
           split: option.splits sum.splits node.splits)

lemma write_all_log_call:
  "write_all p s (log_call c w) = (fst (write_all p s w), log_call c (snd (write_all p s w)))"
  by (auto simp: write_all_def log_call_def resolve_cwd [of "w\<lparr>calls := calls w @ [c]\<rparr>" w]
           split: option.splits node.splits)

lemma os_makedirs_frame:
  assumes "os_makedirs d w = Inr w1"
  shows "free w1 = free w" and "cwd w1 = cwd w" and "out w1 = out w" and "calls w1 = calls w"
    and "isdir w1 d"
    and "node_at w p = Some (File c m r wr) \<Longrightarrow> node_at w1 p = Some (File c m r wr)"
proof -
  from assms obtain ps t where r: "resolve w d = Some ps" and m: "mkdirs ps (root w) = Inr t"
    and w1: "w1 = w\<lparr>root := t\<rparr>"
    by (auto simp: os_makedirs_def split: option.splits sum.splits)
  show "free w1 = free w" "cwd w1 = cwd w" "out w1 = out w" "calls w1 = calls w"
    by (simp_all add: w1)
  have rs: "\<And>q. resolve w1 q = resolve w q"
    by (rule resolve_cwd) (simp add: w1)
  have rt: "root w1 = t" by (simp add: w1)
  from mkdirs_isdir [OF m] obtain l es where "lookup t ps = Some (Dir l es)" by blast
  then show "isdir w1 d"
    by (simp add: isdir_def node_at_def rs r rt)
  assume "node_at w p = Some (File c m r wr)"
  then obtain qs where q: "resolve w p = Some qs" and lq: "lookup (root w) qs = Some (File c m r wr)"
    by (auto simp: node_at_def split: option.splits)
  from mkdirs_keeps_files [OF m lq] show "node_at w1 p = Some (File c m r wr)"
    by (simp add: node_at_def rs q rt)
qed

lemma open_w_effect:
  assumes "open_w E p w = Inr w2"
  shows "\<exists>m r wr. node_at w2 p = Some (File [] m r wr)"
    and "free w2 = free w + (case node_at w p of Some (File c m r wr) \<Rightarrow> length c | _ \<Rightarrow> 0)"
    and "cwd w2 = cwd w" and "out w2 = out w" and "calls w2 = calls w"
proof -
  from assms obtain ps where r: "resolve w p = Some ps"
    by (auto simp: open_w_def split: option.splits)
  from assms r consider
    (existing) c m rd where "lookup (root w) ps = Some (File c m rd True)"
      "w2 = w\<lparr>root := put ps (File [] (clock E (ticks w)) rd True) (root w), free := free w + length c\<rparr>"
  | (new) es where "lookup (root w) ps = None" "lookup (root w) (butlast ps) = Some (Dir False es)"
      "w2 = w\<lparr>root := put ps (File [] (clock E (ticks w)) True True) (root w)\<rparr>"
    by (auto simp: open_w_def split: option.splits node.splits if_splits)
  then have "(\<exists>m r wr. node_at w2 p = Some (File [] m r wr))
     \<and> free w2 = free w + (case node_at w p of Some (File c m r wr) \<Rightarrow> length c | _ \<Rightarrow> 0)
     \<and> cwd w2 = cwd w \<and> out w2 = out w \<and> calls w2 = calls w"
  proof cases
    case existing
    have rs: "resolve w2 p = Some ps"
      using r resolve_cwd [of w2 w p] by (simp add: existing(2))
    have "lookup (put ps (File [] (clock E (ticks w)) rd True) (root w)) ps
          = Some (File [] (clock E (ticks w)) rd True)"
      by (rule lookup_put_same) (simp add: existing(1))
    moreover have "root w2 = put ps (File [] (clock E (ticks w)) rd True) (root w)"
      "free w2 = free w + length c" "cwd w2 = cwd w" "out w2 = out w" "calls w2 = calls w"
      by (simp_all add: existing(2))
    ultimately show ?thesis
      by (auto simp: node_at_def rs r existing(1))
  next
    case new
    have rs: "resolve w2 p = Some ps"
      using r resolve_cwd [of w2 w p] by (simp add: new(3))
    from new(1) have ne: "ps \<noteq> []" by (cases ps) auto
    have "lookup (put ps (File [] (clock E (ticks w)) True True) (root w)) ps
          = Some (File [] (clock E (ticks w)) True True)"
      by (rule lookup_put_same) (use ne new(2) in blast)
    moreover have "root w2 = put ps (File [] (clock E (ticks w)) True True) (root w)"
      "free w2 = free w" "cwd w2 = cwd w" "out w2 = out w" "calls w2 = calls w"
      by (simp_all add: new(3))
    ultimately show ?thesis
      by (auto simp: node_at_def rs r new(1))
  qed
  then show "\<exists>m r wr. node_at w2 p = Some (File [] m r wr)"
    and "free w2 = free w + (case node_at w p of Some (File c m r wr) \<Rightarrow> length c | _ \<Rightarrow> 0)"
    and "cwd w2 = cwd w" and "out w2 = out w" and "calls w2 = calls w"
    by blast+
qed

lemma write_all_effect:
  assumes "node_at w p = Some (File [] m r wr)"
  shows "node_at (snd (write_all p s w)) p = Some (File (take (free w) s) m r wr)"
    and "fst (write_all p s w) = (if length s \<le> free w then None else Some NoSpaceError)"
    and "out (snd (write_all p s w)) = out w" and "calls (snd (write_all p s w)) = calls w"
    and "cwd (snd (write_all p s w)) = cwd w"
proof -
  from assms obtain ps where r: "resolve w p = Some ps" and l: "lookup (root w) ps = Some (File [] m r wr)"
    by (auto simp: node_at_def split: option.splits)
  from l have ok: "lookup (root w) ps \<noteq> None \<or> (ps \<noteq> [] \<and> (\<exists>l es. lookup (root w) (butlast ps) = Some (Dir l es)))"
    by simp
  have c: "cwd (snd (write_all p s w)) = cwd w"
    using r l by (simp add: write_all_def)
  have rs: "resolve (snd (write_all p s w)) p = resolve w p"
    by (rule resolve_cwd) (rule c)
  have rt: "root (snd (write_all p s w)) = put ps (File (take (free w) s) m r wr) (root w)"
    using r l by (simp add: write_all_def)
  show "node_at (snd (write_all p s w)) p = Some (File (take (free w) s) m r wr)"
    using lookup_put_same [OF ok] by (simp add: node_at_def rs r rt)
  show "fst (write_all p s w) = (if length s \<le> free w then None else Some NoSpaceError)"
    using r l by (simp add: write_all_def)
  show "out (snd (write_all p s w)) = out w" "calls (snd (write_all p s w)) = calls w"
    using r l by (simp_all add: write_all_def)
  show "cwd (snd (write_all p s w)) = cwd w" by (rule c)
qed


lemma open_w_keeps_dir:
  assumes "open_w E (join d n) w = Inr w2" and "isdir w d"
  shows "isdir w2 d"
proof -
  from assms(2) obtain ps l es where r: "resolve w d = Some ps" and l: "lookup (root w) ps = Some (Dir l es)"
    by (auto simp: isdir_def node_at_def split: option.splits node.splits)
  have rj: "resolve w (join d n) = Some (ps @ [n])" by (rule resolve_join [OF r])
  from assms(1) rj obtain f where rt: "root w2 = put (ps @ [n]) f (root w)" and c: "cwd w2 = cwd w"
    by (auto simp: open_w_def split: option.splits node.splits if_splits)
  from lookup_put_parent [OF l, of n f] obtain es' where "lookup (root w2) ps = Some (Dir l es')"
    by (auto simp: rt)
  then show ?thesis
    using r resolve_cwd [OF c, of d] by (simp add: isdir_def node_at_def)
qed

lemma write_all_keeps_dir:
  assumes "isdir w d"
  shows "isdir (snd (write_all (join d n) s w)) d"
proof -
  from assms obtain ps l es where r: "resolve w d = Some ps" and l: "lookup (root w) ps = Some (Dir l es)"
    by (auto simp: isdir_def node_at_def split: option.splits node.splits)
  have rj: "resolve w (join d n) = Some (ps @ [n])" by (rule resolve_join [OF r])
  have "(root (snd (write_all (join d n) s w)) = root w \<or>
             (\<exists>f. root (snd (write_all (join d n) s w)) = put (ps @ [n]) f (root w)))
           \<and> cwd (snd (write_all (join d n) s w)) = cwd w"
    using rj by (auto simp: write_all_def split: option.splits node.splits)
  then have c: "cwd (snd (write_all (join d n) s w)) = cwd w"
    and rt: "root (snd (write_all (join d n) s w)) = root w \<or>
             (\<exists>f. root (snd (write_all (join d n) s w)) = put (ps @ [n]) f (root w))"
    by simp_all
  from rt lookup_put_parent [OF l, of n] l
  have "\<exists>es'. lookup (root (snd (write_all (join d n) s w))) ps = Some (Dir l es')"
    by auto
  then show ?thesis
    using r resolve_cwd [OF c, of d] by (auto simp: isdir_def node_at_def)
qed

lemma save_metadata_unfold:
  "save_metadata E d md w =
     (case os_makedirs d w of
        Inl e \<Rightarrow> say (save_error (join d METADATA_FILE) e) (log_call (Save d) w)
      | Inr w1 \<Rightarrow>
          (case open_w E (join d METADATA_FILE) w1 of
             Inl e \<Rightarrow> say (save_error (join d METADATA_FILE) e) (log_call (Save d) w1)
           | Inr w2 \<Rightarrow>
               (case fst (write_all (join d METADATA_FILE) (json_dumps E md) w2) of
                  Some e \<Rightarrow> say (save_error (join d METADATA_FILE) e)
                              (log_call (Save d) (snd (write_all (join d METADATA_FILE) (json_dumps E md) w2)))
                | None \<Rightarrow> log_call (Save d) (snd (write_all (join d METADATA_FILE) (json_dumps E md) w2)))))"
  by (simp add: save_metadata_def Let_def os_makedirs_log_call open_w_log_call write_all_log_call
           split: sum.splits option.splits prod.splits)

section \<open>Saving the sidecar\<close>

text \<open>
  C1, as stated, fails when the write itself fails: \<open>open(..., 'w')\<close> has already emptied
  the sidecar file, and what \<open>json.dump\<close> wrote before the error stays in it.  Here the
  volume has room for five characters of the new text.
\<close>

theorem failed_write_loses_prior_content:
  "read_file full_world (join (Path True [''d'']) METADATA_FILE) = Inr ''{}''
   \<and> read_file (save_metadata demo_env (Path True [''d'']) doc_a full_world)
        (join (Path True [''d'']) METADATA_FILE) = Inr ''{f:{t''
   \<and> out (save_metadata demo_env (Path True [''d'']) doc_a full_world)
        = [ErrSavingMetadata (join (Path True [''d'']) METADATA_FILE) NoSpaceError]"
  by code_simp

text \<open>
  C1, amended.  \<open>_save_metadata\<close> creates the owning directory first.  When that fails,
  the file system is left as it was and the error is printed.  When the directory exists
  or was created and opening the sidecar file for writing fails, every regular file keeps
  its content and the error is printed.  Once the file is open its earlier content is
  gone: it then holds the new text, or, when the volume is too small, the part of the new
  text that fits, and the error is printed.
\<close>

theorem save_metadata_effect:
  "(os_makedirs d w = Inl e \<longrightarrow>
      root (save_metadata E d md w) = root w \<and> free (save_metadata E d md w) = free w
      \<and> out (save_metadata E d md w) = out w @ [save_error (join d METADATA_FILE) e])
   \<and> (os_makedirs d w = Inr w1 \<longrightarrow> isdir (save_metadata E d md w) d)
   \<and> (os_makedirs d w = Inr w1 \<and> open_w E (join d METADATA_FILE) w1 = Inl e \<longrightarrow>
        (\<forall>p c m r wr. node_at w p = Some (File c m r wr)
           \<longrightarrow> node_at (save_metadata E d md w) p = Some (File c m r wr))
        \<and> out (save_metadata E d md w) = out w @ [save_error (join d METADATA_FILE) e])
   \<and> (os_makedirs d w = Inr w1 \<and> open_w E (join d METADATA_FILE) w1 = Inr w2 \<longrightarrow>
        (\<exists>m r wr. node_at (save_metadata E d md w) (join d METADATA_FILE)
                    = Some (File (take (free w2) (json_dumps E md)) m r wr))
        \<and> free w2 = free w + (case node_at w1 (join d METADATA_FILE) of
                                 Some (File c m r wr) \<Rightarrow> length c | _ \<Rightarrow> 0)
        \<and> out (save_metadata E d md w) =
            out w @ (if length (json_dumps E md) \<le> free w2 then []
                     else [ErrSavingMetadata (join d METADATA_FILE) NoSpaceError]))"
proof -
  let ?mp = "join d METADATA_FILE"
  let ?s = "save_metadata E d md w"
  have p1: "root ?s = root w \<and> free ?s = free w \<and> out ?s = out w @ [save_error ?mp e]"
    if "os_makedirs d w = Inl e"
    using that by (simp add: save_metadata_unfold)
  have p2: "isdir ?s d" if a: "os_makedirs d w = Inr w1"
  proof (cases "open_w E ?mp w1")
    case (Inl e')
    with a os_makedirs_frame(5) [OF a] show ?thesis by (simp add: save_metadata_unfold)
  next
    case (Inr w2')
    from open_w_keeps_dir [OF Inr os_makedirs_frame(5) [OF a]] have "isdir w2' d" .
    from write_all_keeps_dir [OF this]
    have "isdir (snd (write_all ?mp (json_dumps E md) w2')) d" .
    with a Inr show ?thesis
      by (simp add: save_metadata_unfold split: option.splits)
  qed
  have p3: "(\<forall>p c m r wr. node_at w p = Some (File c m r wr)
               \<longrightarrow> node_at ?s p = Some (File c m r wr))
            \<and> out ?s = out w @ [save_error ?mp e]"
    if a: "os_makedirs d w = Inr w1" and b: "open_w E ?mp w1 = Inl e"
    using a b os_makedirs_frame(3) [OF a] os_makedirs_frame(6) [OF a]
    by (simp add: save_metadata_unfold)
  have p4: "(\<exists>m r wr. node_at ?s ?mp = Some (File (take (free w2) (json_dumps E md)) m r wr))
        \<and> free w2 = free w + (case node_at w1 ?mp of Some (File c m r wr) \<Rightarrow> length c | _ \<Rightarrow> 0)
        \<and> out ?s = out w @ (if length (json_dumps E md) \<le> free w2 then []
                               else [ErrSavingMetadata ?mp NoSpaceError])"
    if m: "os_makedirs d w = Inr w1" and op: "open_w E ?mp w1 = Inr w2"
  proof -
    note f = os_makedirs_frame [OF m]
    note g = open_w_effect [OF op]
    from g(1) obtain mt rd wr where n2: "node_at w2 ?mp = Some (File [] mt rd wr)"
      by blast
    note h = write_all_effect [OF n2, of "json_dumps E md"]
    have se: "save_error ?mp NoSpaceError = ErrSavingMetadata ?mp NoSpaceError"
      by (simp add: save_error_def is_OSError_def)
    show ?thesis
      using m op h g(2) g(4) f(1) f(3)
      by (simp add: save_metadata_unfold se)
  qed
  show ?thesis
    using p1 p2 p3 p4 by blast
qed

lemma ev_mk_empty: "os_makedirs (Path False []) full_world = Inl FileNotFoundError"
  by (simp add: os_makedirs_def resolve_def)

lemma ev_mk_ro: "os_makedirs (Path True [''ro'']) full_world = Inr full_world"
  by (simp add: os_makedirs_def resolve_def full_world_def)

lemma ev_open_ro:
  "open_w demo_env (join (Path True [''ro'']) METADATA_FILE) full_world = Inl PermissionError"
  by (simp add: open_w_def resolve_def full_world_def METADATA_FILE_def)

lemma ev_node_ro:
  "node_at full_world (join (Path True [''ro'']) METADATA_FILE) = Some (File ''{}'' 0 True False)"
  by (simp add: node_at_def resolve_def full_world_def METADATA_FILE_def)

lemma ev_mk_d: "os_makedirs (Path True [''d'']) full_world = Inr full_world"
  by (simp add: os_makedirs_def resolve_def full_world_def)

lemma ev_open_d:
  "\<exists>w2. open_w demo_env (join (Path True [''d'']) METADATA_FILE) full_world = Inr w2 \<and> free w2 = 5"
  by (simp add: open_w_def resolve_def full_world_def METADATA_FILE_def)

lemma ev_dumps_a: "json_dumps demo_env doc_a = ''{f:{tags:[a]}}''"
  by (simp add: demo_env_def demo_docs_def doc_a_def)

theorem save_metadata_effect_witness:
  "os_makedirs (Path False []) full_world = Inl FileNotFoundError
   \<and> root (save_metadata demo_env (Path False []) doc_a full_world) = root full_world
   \<and> os_makedirs (Path True [''ro'']) full_world = Inr full_world
   \<and> open_w demo_env (join (Path True [''ro'']) METADATA_FILE) full_world = Inl PermissionError
   \<and> node_at (save_metadata demo_env (Path True [''ro'']) doc_a full_world)
        (join (Path True [''ro'']) METADATA_FILE) = Some (File ''{}'' 0 True False)
   \<and> os_makedirs (Path True [''d'']) full_world = Inr full_world
   \<and> isdir (save_metadata demo_env (Path True [''d'']) doc_a full_world) (Path True [''d''])
   \<and> (\<exists>w2. open_w demo_env (join (Path True [''d'']) METADATA_FILE) full_world = Inr w2
          \<and> (\<exists>m r wr. node_at (save_metadata demo_env (Path True [''d'']) doc_a full_world)
                            (join (Path True [''d'']) METADATA_FILE)
                        = Some (File ''{f:{t'' m r wr)))"
proof -
  from ev_open_d obtain w2
    where o: "open_w demo_env (join (Path True [''d'']) METADATA_FILE) full_world = Inr w2"
      and f: "free w2 = 5"
    by blast
  have a: "root (save_metadata demo_env (Path False []) doc_a full_world) = root full_world"
    using save_metadata_effect [of "Path False []" full_world FileNotFoundError demo_env doc_a]
      ev_mk_empty by simp
  have b: "node_at (save_metadata demo_env (Path True [''ro'']) doc_a full_world)
             (join (Path True [''ro'']) METADATA_FILE) = Some (File ''{}'' 0 True False)"
    using save_metadata_effect [of "Path True [''ro'']" full_world PermissionError demo_env doc_a full_world]
      ev_mk_ro ev_open_ro ev_node_ro by simp
  have c: "isdir (save_metadata demo_env (Path True [''d'']) doc_a full_world) (Path True [''d''])
           \<and> (\<exists>m r wr. node_at (save_metadata demo_env (Path True [''d'']) doc_a full_world)
                            (join (Path True [''d'']) METADATA_FILE)
                        = Some (File ''{f:{t'' m r wr))"
    using save_metadata_effect [of "Path True [''d'']" full_world _ demo_env doc_a full_world w2]
      ev_mk_d o f by (simp add: ev_dumps_a)
  from a b c o ev_mk_empty ev_mk_ro ev_open_ro ev_mk_d show ?thesis
    by blast
qed

section \<open>How often a tag operation loads and saves\<close>














end
